theory Spec2Isabelle
  imports Main
begin

section \<open>Strings as the source uses them\<close>

text \<open>
  A \<open>char\<close> stands for a code unit below 256. \<open>toLowerCase\<close> is only ever applied
  by the source to text matched by an ASCII pattern, so the ASCII letters are all it has
  to move.
\<close>

definition toLowerChar :: "char \<Rightarrow> char" where
  "toLowerChar c =
     (case map_of (zip ''ABCDEFGHIJKLMNOPQRSTUVWXYZ'' ''abcdefghijklmnopqrstuvwxyz'') c of
        Some d \<Rightarrow> d
      | None \<Rightarrow> c)"

definition toLowerCase :: "string \<Rightarrow> string" where
  "toLowerCase s = map toLowerChar s"

text \<open>\<open>s.split(",")\<close>: the empty string gives one empty piece.\<close>

fun split_comma :: "string \<Rightarrow> string list" where
  "split_comma [] = [[]]"
| "split_comma (c # cs) =
     (if c = CHR '','' then [] # split_comma cs
      else (case split_comma cs of
              w # ws \<Rightarrow> (c # w) # ws
            | [] \<Rightarrow> [[c]]))"

text \<open>A pattern anchored with \<open>^\<close> under the flag \<open>i\<close>: the text starts with the word, whatever the case.\<close>

definition istarts :: "string \<Rightarrow> string \<Rightarrow> bool" where
  "istarts w s = (length w \<le> length s \<and> toLowerCase (take (length w) s) = w)"

section \<open>The router's process-wide state\<close>

text \<open>
  \<open>controllerToPathHash\<close> and \<open>defaultMethod\<close> are module variables; \<open>bound\<close> logs the
  calls made on the Express server (method, path, handler names in order).
\<close>

record router =
  controllerToPathHash :: "string \<rightharpoonup> string"
  defaultMethod :: string
  bound :: "(string \<times> string \<times> string list) list"

text \<open>
  The table is a plain object, so a read of a name it does not hold itself finds what
  \<open>Object.prototype\<close> has under that name: a function, or for \<open>__proto__\<close> the prototype
  object. An assignment to \<open>__proto__\<close> of a string makes no property.
\<close>

definition object_prototype_names :: "string list" where
  "object_prototype_names =
     [''constructor'', ''toString'', ''toLocaleString'', ''valueOf'', ''hasOwnProperty'',
      ''isPrototypeOf'', ''propertyIsEnumerable'', ''__proto__'', ''__defineGetter__'',
      ''__defineSetter__'', ''__lookupGetter__'', ''__lookupSetter__'']"

datatype table_value = Undefined | PathV string | Inherited

definition table_read :: "(string \<rightharpoonup> string) \<Rightarrow> string \<Rightarrow> table_value" where
  "table_read t name =
     (case t name of
        Some thePath \<Rightarrow> PathV thePath
      | None \<Rightarrow> if name \<in> set object_prototype_names then Inherited else Undefined)"

definition table_write :: "(string \<rightharpoonup> string) \<Rightarrow> string \<Rightarrow> string \<Rightarrow> (string \<rightharpoonup> string)" where
  "table_write t name thePath = (if name = ''__proto__'' then t else t(name \<mapsto> thePath))"

datatype error =
    InvalidMethod string
  | InvalidController
  | MissingParameters string
  | InvalidRouteDefinition
  | InvalidControllerPath string
  | NotAFunction string

section \<open>setDefaultMethod\<close>

text \<open>\<open>/^(get|post|put|del|all)$/i\<close>: the whole text is one of the five words.\<close>

definition single_methods :: "string list" where
  "single_methods = [''get'', ''post'', ''put'', ''del'', ''all'']"

definition setDefaultMethod :: "string \<Rightarrow> router \<Rightarrow> error + router" where
  "setDefaultMethod theMethod r =
     (if toLowerCase theMethod \<in> set single_methods
      then Inr (r\<lparr>defaultMethod := toLowerCase theMethod\<rparr>)
      else Inl (InvalidMethod theMethod))"

section \<open>The route key parser of buildRoutes\<close>

text \<open>\<open>theMethod\<close> is a string after the first branch and an array after the second.\<close>

datatype method_spec = Single string | Multi "string list"

fun methods_of :: "method_spec \<Rightarrow> string list" where
  "methods_of (Single m) = [m]"
| "methods_of (Multi ms) = ms"

text \<open>The words of the replacement pattern \<open>/^(get|post|pul|del|all)/i\<close>.\<close>

definition strip_words :: "string list" where
  "strip_words = [''get'', ''post'', ''pul'', ''del'', ''all'']"

text \<open>The class \<open>[adeglopstu,]\<close> under the flag \<open>i\<close>.\<close>

definition method_char :: "char \<Rightarrow> bool" where
  "method_char c = (toLowerChar c \<in> set ''adeglopstu,'')"

definition strip_single :: "string \<Rightarrow> string" where
  "strip_single routeUrl =
     (case find (\<lambda>w. istarts w routeUrl) strip_words of
        Some w \<Rightarrow> drop (length w) routeUrl
      | None \<Rightarrow> routeUrl)"

definition parse_key :: "string \<Rightarrow> string \<Rightarrow> method_spec \<times> string" where
  "parse_key dflt route =
     (case find (\<lambda>w. istarts (w @ ''/'') route) single_methods of
        Some w \<Rightarrow> (Single w, strip_single route)
      | None \<Rightarrow>
          (let seg = takeWhile method_char route
           in if seg \<noteq> [] \<and> take 1 (drop (length seg) route) = ''/''
              then (Multi (split_comma (toLowerCase seg)), drop (length seg) route)
              else (Single dflt, route)))"

section \<open>getControllerUrl\<close>

text \<open>
  The source builds a global pattern from a colon, the parameter name as it is, and a
  starred question mark, so the name is compiled as a pattern.
  The embedding covers the names whose characters are ordinary (they match themselves)
  or the dot (any character but a line terminator); a name with another syntax character
  of the pattern language compiles to \<open>None\<close> and the run is outside the embedding.
\<close>

datatype atom = Lit char | AnyChar

definition syntax_char :: "char \<Rightarrow> bool" where
  "syntax_char c = (c = CHR 0x5C \<or> c \<in> set ''^$*+?()[]{}|'')"

fun compile_key :: "string \<Rightarrow> atom list option" where
  "compile_key [] = Some []"
| "compile_key (c # cs) =
     (if syntax_char c then None
      else (case compile_key cs of
              None \<Rightarrow> None
            | Some as \<Rightarrow> Some ((if c = CHR ''.'' then AnyChar else Lit c) # as)))"

fun atom_ok :: "atom \<Rightarrow> char \<Rightarrow> bool" where
  "atom_ok (Lit a) c = (a = c)"
| "atom_ok AnyChar c = (c \<noteq> CHR 0x0A \<and> c \<noteq> CHR 0x0D)"

text \<open>What is left of the text after the atoms have matched at its start.\<close>

fun match_atoms :: "atom list \<Rightarrow> string \<Rightarrow> string option" where
  "match_atoms [] s = Some s"
| "match_atoms (a # as) [] = None"
| "match_atoms (a # as) (c # cs) = (if atom_ok a c then match_atoms as cs else None)"

text \<open>The whole pattern at the start of the text: a colon, the name, then every \<open>?\<close> that follows.\<close>

definition match_param :: "atom list \<Rightarrow> string \<Rightarrow> string option" where
  "match_param as s =
     (case match_atoms (Lit CHR '':'' # as) s of
        None \<Rightarrow> None
      | Some rest \<Rightarrow> Some (dropWhile (\<lambda>c. c = CHR ''?'') rest))"

text \<open>
  The replacement text of \<open>String.prototype.replace\<close>: \<open>$$\<close> is a dollar, \<open>$&\<close> the match,
  \<open>$`\<close> the text before it, \<open>$'\<close> the text after it; the pattern has no group, so any other
  dollar stands for itself.
\<close>

fun expand :: "string \<Rightarrow> string \<Rightarrow> string \<Rightarrow> string \<Rightarrow> string" where
  "expand m b a (c # d # cs) =
     (if c = CHR ''$'' \<and> d = CHR ''$'' then CHR ''$'' # expand m b a cs
      else if c = CHR ''$'' \<and> d = CHR ''&'' then m @ expand m b a cs
      else if c = CHR ''$'' \<and> d = CHR 0x60 then b @ expand m b a cs
      else if c = CHR ''$'' \<and> d = CHR 0x27 then a @ expand m b a cs
      else c # expand m b a (d # cs))"
| "expand m b a cs = cs"

lemma match_atoms_length: "match_atoms as s = Some rest \<Longrightarrow> length rest + length as = length s"
  by (induction as s rule: match_atoms.induct) (auto split: if_splits)

lemma match_param_length: "match_param as s = Some rest \<Longrightarrow> length rest < length s"
proof -
  assume h: "match_param as s = Some rest"
  then obtain r where r: "match_atoms (Lit CHR '':'' # as) s = Some r"
    and rest: "rest = dropWhile (\<lambda>c. c = CHR ''?'') r"
    by (auto simp: match_param_def split: option.splits)
  have "length rest \<le> length r" using rest by (simp add: length_dropWhile_le)
  moreover have "length r < length s" using match_atoms_length [OF r] by simp
  ultimately show ?thesis by simp
qed

text \<open>
  The global replacement, scanning left to right; \<open>b\<close> is the text already passed, which
  \<open>$`\<close> needs. The result is not scanned again.
\<close>

function replace_all :: "atom list \<Rightarrow> string \<Rightarrow> string \<Rightarrow> string \<Rightarrow> string" where
  "replace_all as v b [] = []"
| "replace_all as v b (c # cs) =
     (case match_param as (c # cs) of
        None \<Rightarrow> c # replace_all as v (b @ [c]) cs
      | Some rest \<Rightarrow>
          (let m = take (length (c # cs) - length rest) (c # cs)
           in expand m b rest v @ replace_all as v (b @ m) rest))"
  by pat_completeness auto
termination
  by (relation "measure (\<lambda>(as, v, b, s). length s)") (auto dest: match_param_length)

text \<open>The loop over \<open>params\<close>, in the order \<open>for ... in\<close> visits the names.\<close>

fun subst_params :: "(string \<times> string) list \<Rightarrow> string \<Rightarrow> string option" where
  "subst_params [] thePath = Some thePath"
| "subst_params ((param, v) # ps) thePath =
     (case compile_key param of
        None \<Rightarrow> None
      | Some as \<Rightarrow> subst_params ps (replace_all as v [] thePath))"

text \<open>
  The second replacement deletes every stretch from a colon up to the next question mark,
  whatever lies between them.
\<close>

function strip_optional :: "string \<Rightarrow> string" where
  "strip_optional [] = []"
| "strip_optional (c # cs) =
     (if c = CHR '':'' \<and> CHR ''?'' \<in> set cs
      then strip_optional (tl (dropWhile (\<lambda>x. x \<noteq> CHR ''?'') cs))
      else c # strip_optional cs)"
  by pat_completeness auto
termination
  by (relation "measure length") (auto simp: length_dropWhile_le less_Suc_eq_le le_trans [OF diff_le_self])

text \<open>
  \<open>path.join\<close> belongs to the platform and is a parameter \<open>pj\<close>. The router is returned
  with the result: the function writes to none of its fields. A value inherited from
  \<open>Object.prototype\<close> passes the guard and has no method \<open>replace\<close>: the first call of it
  throws, in the loop once the pattern of the first parameter is built, or after the loop
  when there is no parameter.
\<close>

definition getControllerUrl ::
  "(string \<Rightarrow> string \<Rightarrow> string) \<Rightarrow> string \<Rightarrow> (string \<times> string) list \<Rightarrow> router
     \<Rightarrow> ((error + string) \<times> router) option" where
  "getControllerUrl pj controller params r =
     (case table_read (controllerToPathHash r) controller of
        Undefined \<Rightarrow> Some (Inl InvalidController, r)
      | Inherited \<Rightarrow>
          (case params of
             [] \<Rightarrow> Some (Inl (NotAFunction ''replace''), r)
           | (param, v) # ps \<Rightarrow>
               (case compile_key param of
                  None \<Rightarrow> None
                | Some as \<Rightarrow> Some (Inl (NotAFunction ''replace''), r)))
      | PathV thePath \<Rightarrow>
          if thePath = [] then Some (Inl InvalidController, r)
          else (case subst_params params thePath of
                  None \<Rightarrow> None
                | Some p1 \<Rightarrow>
                    (let p2 = strip_optional p1
                     in if CHR '':'' \<in> set p2 then Some (Inl (MissingParameters p2), r)
                        else Some (Inr (pj [] p2), r))))"

section \<open>Route trees\<close>

text \<open>
  The numbers the source uses as depths are integers and \<open>Infinity\<close>. A missing depth
  (\<open>undefined\<close>) and \<open>NaN\<close> answer every test of the source alike and are both \<open>None\<close>.
\<close>

datatype depth = Fin int | Infinity

text \<open>
  A \<open>String\<close> object (what \<open>DepthString\<close> and \<open>new String\<close> make) lives in a heap, since the
  tree and the compiler's working arrays share it by reference. An array element is a
  primitive string or a reference to such an object.
\<close>

record sobj =
  sname :: string
  sdepth :: "depth option"

datatype elem = Prim string | Ref nat

text \<open>
  A value of the route tree: a string, an array, a number, a plain object with its keys in
  the order \<open>for ... in\<close> visits them (keys are distinct), or a function. An array and
  a function are objects and can carry a property \<open>depth\<close>: \<open>ArrD\<close> and \<open>FnD\<close> are an array
  and a function that do, \<open>Arr\<close> and \<open>Fn\<close> those that do not.
\<close>

datatype node =
    Str string
  | Arr "elem list"
  | Num depth
  | Obj "(string \<times> node) list"
  | Fn
  | ArrD "elem list" depth
  | FnD depth

fun truthy :: "node \<Rightarrow> bool" where
  "truthy (Str s) = (s \<noteq> [])"
| "truthy (Num d) = (d \<noteq> Fin 0)"
| "truthy v = True"

definition get_prop :: "(string \<times> node) list \<Rightarrow> string \<Rightarrow> node option" where
  "get_prop kvs k = map_of kvs k"

text \<open>Assigning a property keeps the position of a key that exists and appends a new one.\<close>

fun set_prop :: "(string \<times> node) list \<Rightarrow> string \<Rightarrow> node \<Rightarrow> (string \<times> node) list" where
  "set_prop [] k v = [(k, v)]"
| "set_prop ((k', v') # kvs) k v =
     (if k' = k then (k, v) # kvs else (k', v') # set_prop kvs k v)"

definition deref :: "sobj list \<Rightarrow> nat \<Rightarrow> sobj" where
  "deref h a = (if a < length h then h ! a else \<lparr>sname = [], sdepth = None\<rparr>)"

fun elem_name :: "sobj list \<Rightarrow> elem \<Rightarrow> string" where
  "elem_name h (Prim s) = s"
| "elem_name h (Ref a) = sname (deref h a)"

text \<open>
  The \<open>required\<close> object of \<open>buildRoutes\<close> is made once by the outermost call and handed
  down by reference, so every call reads and assigns the same two properties. Its
  postfix can become a primitive string (see \<open>add_postfix\<close>).
\<close>

datatype postv = PStr string | PArr "elem list"

record build = router +
  heap :: "sobj list"
  required_prefix :: "elem list"
  required_postfix :: postv

text \<open>
  A run stops early when the source throws, or when the tree holds a value outside the
  embedding (\<open>Outside\<close>: a depth that is not a number, a prefix or postfix that is a nonzero
  number, an object or a function, a number as a route).
\<close>

datatype stop = Thrown error | Outside

text \<open>What the platform supplies: the controllers, the server's methods, \<open>path.join\<close>.\<close>

record env =
  resolves :: "string \<Rightarrow> bool"
  has_method :: "string \<Rightarrow> bool"
  path_join :: "string \<Rightarrow> string \<Rightarrow> string"

section \<open>buildRoutes: entering a group\<close>

definition empty_required :: node where
  "empty_required = Obj [(''prefix'', Arr []), (''postfix'', Arr [])]"

text \<open>
  The two guarded assignments at the head of \<open>buildRoutes\<close>. The result is the value of
  \<open>routeObj.required\<close> afterwards and the depth a later read of \<open>routeObj.required.depth\<close>
  gives. A primitive takes no property, so its depth reads as missing; an array or a
  function takes the property.
\<close>

definition init_required :: "(string \<times> node) list \<Rightarrow> (node \<times> depth option) option" where
  "init_required kvs =
     (let req = (case get_prop kvs ''required'' of
                   None \<Rightarrow> empty_required
                 | Some v \<Rightarrow> if truthy v then v else empty_required)
      in case req of
           Obj rk \<Rightarrow>
             (case get_prop rk ''depth'' of
                None \<Rightarrow> Some (Obj (set_prop rk ''depth'' (Num Infinity)), Some Infinity)
              | Some (Num d) \<Rightarrow>
                  if d = Fin 0 then Some (Obj (set_prop rk ''depth'' (Num Infinity)), Some Infinity)
                  else Some (req, Some d)
              | Some (Str t) \<Rightarrow>
                  if t = [] then Some (Obj (set_prop rk ''depth'' (Num Infinity)), Some Infinity)
                  else None
              | Some v \<Rightarrow> None)
         | Str t \<Rightarrow> Some (req, None)
         | Num d \<Rightarrow> Some (req, None)
         | Arr es \<Rightarrow> Some (ArrD es Infinity, Some Infinity)
         | Fn \<Rightarrow> Some (FnD Infinity, Some Infinity)
         | ArrD es d \<Rightarrow>
             if d = Fin 0 then Some (ArrD es Infinity, Some Infinity) else Some (req, Some d)
         | FnD d \<Rightarrow>
             if d = Fin 0 then Some (FnD Infinity, Some Infinity) else Some (req, Some d))"

definition req_field :: "node \<Rightarrow> string \<Rightarrow> node option" where
  "req_field req k = (case req of Obj rk \<Rightarrow> get_prop rk k | v \<Rightarrow> None)"

text \<open>\<open>required.prefix.concat(x)\<close> on an array: an array is spliced in, a string is one more element.\<close>

fun add_prefix :: "node option \<Rightarrow> elem list \<Rightarrow> elem list option" where
  "add_prefix None xs = Some xs"
| "add_prefix (Some (Str t)) xs = Some (if t = [] then xs else xs @ [Prim t])"
| "add_prefix (Some (Arr es)) xs = Some (xs @ es)"
| "add_prefix (Some (ArrD es d)) xs = Some (xs @ es)"
| "add_prefix (Some (Num d)) xs = (if d = Fin 0 then Some xs else None)"
| "add_prefix (Some v) xs = None"

fun join_comma :: "string list \<Rightarrow> string" where
  "join_comma [] = []"
| "join_comma [x] = x"
| "join_comma (x # y # zs) = x @ '','' @ join_comma (y # zs)"

fun postv_elems :: "postv \<Rightarrow> elem list" where
  "postv_elems (PStr t) = [Prim t]"
| "postv_elems (PArr xs) = xs"

fun postv_text :: "sobj list \<Rightarrow> postv \<Rightarrow> string" where
  "postv_text h (PStr t) = t"
| "postv_text h (PArr xs) = join_comma (map (elem_name h) xs)"

text \<open>
  \<open>routeObj.required.postfix.concat(required.postfix)\<close>: the receiver is the declaration.
  On an array this is the array concatenation; on a string it is the concatenation of
  strings, which turns its argument into text.
\<close>

fun add_postfix :: "sobj list \<Rightarrow> node option \<Rightarrow> postv \<Rightarrow> postv option" where
  "add_postfix h None q = Some q"
| "add_postfix h (Some (Str t)) q = Some (if t = [] then q else PStr (t @ postv_text h q))"
| "add_postfix h (Some (Arr es)) q = Some (PArr (es @ postv_elems q))"
| "add_postfix h (Some (ArrD es d)) q = Some (PArr (es @ postv_elems q))"
| "add_postfix h (Some (Num d)) q = (if d = Fin 0 then Some q else None)"
| "add_postfix h (Some v) q = None"

fun falsy_depth :: "depth option \<Rightarrow> bool" where
  "falsy_depth None = True"
| "falsy_depth (Some (Fin n)) = (n = 0)"
| "falsy_depth (Some Infinity) = False"

fun negative :: "depth option \<Rightarrow> bool" where
  "negative (Some (Fin n)) = (n < 0)"
| "negative d = False"

fun decrement :: "depth option \<Rightarrow> depth option" where
  "decrement (Some (Fin n)) = Some (Fin (n - 1))"
| "decrement d = d"

definition store :: "sobj list \<Rightarrow> nat \<Rightarrow> sobj \<Rightarrow> sobj list" where
  "store h a ob = (if a < length h then h[a := ob] else h)"

text \<open>
  \<open>adjustDepth\<close> on an array, \<open>D\<close> being \<open>routeObj.required.depth\<close>: box a primitive, give
  the group's depth to an entry whose own depth is missing or zero, splice out an entry of
  negative depth, decrement the others.
\<close>

fun adjustDepth :: "depth option \<Rightarrow> elem list \<Rightarrow> sobj list \<Rightarrow> elem list \<times> sobj list" where
  "adjustDepth D [] h = ([], h)"
| "adjustDepth D (e # es) h =
     (let (a, h1) = (case e of
                       Prim t \<Rightarrow> (length h, h @ [\<lparr>sname = t, sdepth = None\<rparr>])
                     | Ref a \<Rightarrow> (a, h));
          ob = deref h1 a;
          d = (if falsy_depth (sdepth ob) then D else sdepth ob)
      in if negative d then adjustDepth D es (store h1 a (ob\<lparr>sdepth := d\<rparr>))
         else (let (es', h') = adjustDepth D es (store h1 a (ob\<lparr>sdepth := decrement d\<rparr>))
               in (Ref a # es', h')))"

text \<open>On a primitive string every assignment of \<open>adjustDepth\<close> is without effect.\<close>

fun adjustDepth_postv :: "depth option \<Rightarrow> postv \<Rightarrow> sobj list \<Rightarrow> postv \<times> sobj list" where
  "adjustDepth_postv D (PStr t) h = (PStr t, h)"
| "adjustDepth_postv D (PArr xs) h = (let (xs', h') = adjustDepth D xs h in (PArr xs', h'))"

text \<open>
  The head of \<open>buildRoutes\<close> up to the two calls of \<open>adjustDepth\<close>: the new value of
  \<open>routeObj.required\<close> and the new state, or \<open>None\<close> outside the embedding.
\<close>

definition enter_group :: "(string \<times> node) list \<Rightarrow> build \<Rightarrow> (node \<times> build) option" where
  "enter_group kvs s =
     (case init_required kvs of
        None \<Rightarrow> None
      | Some (req, D) \<Rightarrow>
          (case add_prefix (req_field req ''prefix'') (required_prefix s) of
             None \<Rightarrow> None
           | Some p \<Rightarrow>
               (case add_postfix (heap s) (req_field req ''postfix'') (required_postfix s) of
                  None \<Rightarrow> None
                | Some q \<Rightarrow>
                    (let (p', h1) = adjustDepth D p (heap s);
                         (q', h2) = adjustDepth_postv D q h1
                     in Some (req, s\<lparr>heap := h2, required_prefix := p', required_postfix := q'\<rparr>)))))"

section \<open>buildRoutes: a leaf\<close>

definition trim_slash :: "string \<Rightarrow> string" where
  "trim_slash u =
     (if u \<noteq> ''/'' then (if u \<noteq> [] \<and> last u = CHR ''/'' then butlast u else u) else ''/'')"

text \<open>
  The loop over \<open>expressCall\<close>: the table is written before \<open>getController\<close> looks the name
  up, so a name that does not resolve is in the table when the error is thrown.
\<close>

fun register_names :: "env \<Rightarrow> string \<Rightarrow> string list \<Rightarrow> build \<Rightarrow> stop option \<times> build" where
  "register_names E url [] s = (None, s)"
| "register_names E url (n # ns) s =
     (let s1 = s\<lparr>controllerToPathHash := table_write (controllerToPathHash s) n url\<rparr>
      in if resolves E n then register_names E url ns s1
         else (Some (Thrown (InvalidControllerPath n)), s1))"

fun bind_methods :: "env \<Rightarrow> string list \<Rightarrow> string \<Rightarrow> string list \<Rightarrow> build \<Rightarrow> stop option \<times> build" where
  "bind_methods E [] url names s = (None, s)"
| "bind_methods E (m # ms) url names s =
     (if has_method E m
      then bind_methods E ms url names (s\<lparr>bound := bound s @ [(m, url, names)]\<rparr>)
      else (Some (Thrown (NotAFunction m)), s))"

definition expressCall :: "build \<Rightarrow> elem list \<Rightarrow> string list" where
  "expressCall s own =
     map (elem_name (heap s)) (required_prefix s @ own @ postv_elems (required_postfix s))"

definition build_leaf :: "env \<Rightarrow> string \<Rightarrow> elem list \<Rightarrow> string \<Rightarrow> build \<Rightarrow> stop option \<times> build" where
  "build_leaf E route own currPath s =
     (let (theMethod, u0) = parse_key (defaultMethod s) route;
          u1 = (if currPath \<noteq> [] then path_join E currPath u0 else u0);
          routeUrl = trim_slash u1
      in case register_names E routeUrl (expressCall s own) s of
           (Some st, s1) \<Rightarrow> (Some st, s1)
         | (None, s1) \<Rightarrow> bind_methods E (methods_of theMethod) routeUrl (expressCall s own) s1)"

section \<open>buildRoutes: the traversal\<close>

text \<open>
  The loop \<open>for (var route in routeObj)\<close>. It returns how the run ended, the children as
  the run left them, and the state. The key \<open>required\<close> is passed over, so the loop runs
  on the keys as the caller gave them and \<open>buildRoutes\<close> puts the new value of
  \<open>routeObj.required\<close> in place afterwards. A child object is compiled by the recursive
  call, whose body is that of \<open>buildRoutes\<close> below.
\<close>

definition cons_result ::
  "string \<times> node \<Rightarrow> stop option \<times> (string \<times> node) list \<times> build
     \<Rightarrow> stop option \<times> (string \<times> node) list \<times> build" where
  "cons_result kv res = (case res of (st, rest, s) \<Rightarrow> (st, kv # rest, s))"

fun routes_loop ::
  "env \<Rightarrow> (string \<times> node) list \<Rightarrow> string \<Rightarrow> build
     \<Rightarrow> stop option \<times> (string \<times> node) list \<times> build" where
  "routes_loop E [] currPath s = (None, [], s)"
| "routes_loop E ((route, v) # rest) currPath s =
     (if route = ''required'' then cons_result (route, v) (routes_loop E rest currPath s)
      else case v of
          Str t \<Rightarrow>
            (case build_leaf E route [Prim t] currPath s of
               (Some st, s1) \<Rightarrow> (Some st, (route, v) # rest, s1)
             | (None, s1) \<Rightarrow> cons_result (route, v) (routes_loop E rest currPath s1))
        | Arr es \<Rightarrow>
            (case build_leaf E route es currPath s of
               (Some st, s1) \<Rightarrow> (Some st, (route, v) # rest, s1)
             | (None, s1) \<Rightarrow> cons_result (route, v) (routes_loop E rest currPath s1))
        | Obj kvs \<Rightarrow>
            (case enter_group kvs s of
               None \<Rightarrow> (Some Outside, (route, v) # rest, s)
             | Some (req, s1) \<Rightarrow>
                 (case routes_loop E kvs (path_join E currPath route) s1 of
                    (Some st, kvs', s2) \<Rightarrow>
                      (Some st, (route, Obj (set_prop kvs' ''required'' req)) # rest, s2)
                  | (None, kvs', s2) \<Rightarrow>
                      cons_result (route, Obj (set_prop kvs' ''required'' req))
                        (routes_loop E rest currPath s2)))
        | Fn \<Rightarrow> (Some (Thrown InvalidRouteDefinition), (route, v) # rest, s)
        | Num d \<Rightarrow> (Some Outside, (route, v) # rest, s)
        | ArrD es d \<Rightarrow>
            (case build_leaf E route es currPath s of
               (Some st, s1) \<Rightarrow> (Some st, (route, v) # rest, s1)
             | (None, s1) \<Rightarrow> cons_result (route, v) (routes_loop E rest currPath s1))
        | FnD d \<Rightarrow> (Some (Thrown InvalidRouteDefinition), (route, v) # rest, s))"

definition buildRoutes ::
  "env \<Rightarrow> (string \<times> node) list \<Rightarrow> string \<Rightarrow> build
     \<Rightarrow> stop option \<times> (string \<times> node) list \<times> build" where
  "buildRoutes E routeObj currPath s =
     (case enter_group routeObj s of
        None \<Rightarrow> (Some Outside, routeObj, s)
      | Some (req, s1) \<Rightarrow>
          (case routes_loop E routeObj currPath s1 of
             (st, kvs', s2) \<Rightarrow> (st, set_prop kvs' ''required'' req, s2)))"

text \<open>
  \<open>registerRoutes\<close> after its checks of the arguments and the loading of the controllers,
  which belong to the platform: \<open>buildRoutes\<close> from the empty path with no \<open>required\<close>
  argument, so a fresh one is made. It returns how the run ended, the caller's tree, the
  router and the heap.
\<close>

definition registerRoutes ::
  "env \<Rightarrow> (string \<times> node) list \<Rightarrow> router \<Rightarrow> sobj list
     \<Rightarrow> stop option \<times> (string \<times> node) list \<times> router \<times> sobj list" where
  "registerRoutes E tree r h =
     (case buildRoutes E tree []
             \<lparr>controllerToPathHash = controllerToPathHash r, defaultMethod = defaultMethod r,
              bound = bound r, heap = h, required_prefix = [], required_postfix = PArr []\<rparr> of
        (st, tree', s) \<Rightarrow>
          (st, tree',
           \<lparr>controllerToPathHash = controllerToPathHash s, defaultMethod = defaultMethod s,
            bound = bound s\<rparr>,
           heap s))"

section \<open>Method prefixes, for comparison with the parser\<close>

text \<open>The method names of the specification.\<close>

definition valid_methods :: "string list" where
  "valid_methods = [''get'', ''post'', ''put'', ''delete'', ''all'']"

text \<open>
  A key that neither pattern of the parser can match: it has no slash, or nothing stands
  before its first slash, or a character outside the class of the second pattern does.
\<close>

definition no_method_prefix :: "string \<Rightarrow> bool" where
  "no_method_prefix key =
     (CHR ''/'' \<notin> set key \<or> takeWhile (\<lambda>c. c \<noteq> CHR ''/'') key = [] \<or>
      \<not> list_all method_char (takeWhile (\<lambda>c. c \<noteq> CHR ''/'') key))"

section \<open>Literal substitution, for comparison with getControllerUrl\<close>







section \<open>What registration leaves behind\<close>

text \<open>
  The writes of registration into a group, said without the compiler. A \<open>required\<close>
  value that lacks a depth is an object with no property \<open>depth\<close> or a falsy one, or an
  array or function with none or with depth 0; a primitive takes no property.
\<close>

fun needs_depth :: "node \<Rightarrow> bool" where
  "needs_depth (Obj rk) = (case map_of rk ''depth'' of None \<Rightarrow> True | Some d \<Rightarrow> \<not> truthy d)"
| "needs_depth (Arr es) = True"
| "needs_depth Fn = True"
| "needs_depth (ArrD es d) = (d = Fin 0)"
| "needs_depth (FnD d) = (d = Fin 0)"
| "needs_depth v = False"

fun give_depth :: "node \<Rightarrow> node" where
  "give_depth (Obj rk) = Obj (set_prop rk ''depth'' (Num Infinity))"
| "give_depth (Arr es) = ArrD es Infinity"
| "give_depth Fn = FnD Infinity"
| "give_depth (ArrD es d) = ArrD es Infinity"
| "give_depth (FnD d) = FnD Infinity"
| "give_depth v = v"

text \<open>
  The value of \<open>required\<close> in a group after a visit: where there was none, or a falsy one,
  the object with an empty prefix and an empty postfix; and the depth \<open>Infinity\<close> written
  into the value where it lacks a depth.
\<close>

definition required_after :: "(string \<times> node) list \<Rightarrow> node" where
  "required_after routeObj =
     (let v = (case map_of routeObj ''required'' of
                 None \<Rightarrow> Obj [(''prefix'', Arr []), (''postfix'', Arr [])]
               | Some v \<Rightarrow> if truthy v then v else Obj [(''prefix'', Arr []), (''postfix'', Arr [])])
      in if needs_depth v then give_depth v else v)"

text \<open>
  The tree after a visit of every group: each child object with its \<open>required\<close> as
  above, at the place of the key or as a new last key; strings, arrays and every other
  value as they were.
\<close>

fun written_children :: "(string \<times> node) list \<Rightarrow> (string \<times> node) list" where
  "written_children [] = []"
| "written_children ((route, v) # rest) =
     (if route = ''required'' then (route, v)
      else (case v of
              Obj kvs \<Rightarrow> (route, Obj (set_prop (written_children kvs) ''required'' (required_after kvs)))
            | w \<Rightarrow> (route, v))) # written_children rest"







section \<open>Example inputs\<close>

text \<open>The module's variables as the source initialises them.\<close>

definition router0 :: router where
  "router0 = \<lparr>controllerToPathHash = Map.empty, defaultMethod = ''get'', bound = []\<rparr>"


text \<open>
  The controllers of the repository's tests, a server with the methods of Express, and
  \<open>path.join\<close> on the paths of the examples below, where it puts the second path, which
  starts with a slash, behind the first, which does not end with one.
\<close>

definition test_env :: env where
  "test_env =
     \<lparr>resolves = (\<lambda>n. n \<in> set [''test'', ''intercept'', ''donotintercept'', ''name'', ''x'', ''y'', ''t'']),
      has_method = (\<lambda>m. m \<in> set [''get'', ''post'', ''put'', ''del'', ''delete'', ''all'']),
      path_join = (\<lambda>a b. a @ b)\<rparr>"

text \<open>The group \<open>/nodepth\<close> of the test \<open>test required controllers\<close>.\<close>

definition nodepth_tree :: "(string \<times> node) list" where
  "nodepth_tree =
     [(''/nodepth'',
       Obj [(''required'', Obj [(''prefix'', Str ''intercept''), (''depth'', Num (Fin 0))]),
            (''/test'', Str ''test''),
            (''/depth'', Obj [(''/test'', Str ''test'')])])]"

text \<open>Two sibling groups, each with a postfix list of its own.\<close>

definition sibling_tree :: "(string \<times> node) list" where
  "sibling_tree =
     [(''/a'', Obj [(''required'', Obj [(''postfix'', Arr [Prim ''x''])]), (''/t'', Str ''t'')]),
      (''/b'', Obj [(''required'', Obj [(''postfix'', Arr [Prim ''y''])]), (''/t'', Str ''t'')])]"

text \<open>A group inside a group, each declaring its postfix as a string, as the tests do.\<close>

definition nested_tree :: "(string \<times> node) list" where
  "nested_tree =
     [(''/a'',
       Obj [(''required'', Obj [(''postfix'', Str ''x'')]),
            (''/t'', Str ''t''),
            (''/b'', Obj [(''required'', Obj [(''postfix'', Str ''y'')]), (''/t'', Str ''t'')])])]"






text \<open>The router after registering a tree with the module in its initial state.\<close>

definition registered :: "(string \<times> node) list \<Rightarrow> router" where
  "registered tree = fst (snd (snd (registerRoutes test_env tree router0 [])))"

section \<open>Properties of setDefaultMethod\<close>

lemma parse_key_slash: "parse_key d (CHR ''/'' # rest) = (Single d, CHR ''/'' # rest)"
  by (simp add: parse_key_def single_methods_def istarts_def toLowerCase_def toLowerChar_def
      method_char_def)

text \<open>
  C7, as the source has it: \<open>setDefaultMethod\<close> succeeds exactly on the strings that equal
  one of get, post, put, del, all up to case. It then stores the lower-cased word as the
  default, which a later parse of a key with no method prefix uses, and changes nothing
  else; on every other string it fails with \<open>InvalidMethod\<close> and returns no new router.
\<close>

theorem setDefaultMethod_del_words:
  "(toLowerCase m \<in> {''get'', ''post'', ''put'', ''del'', ''all''} \<longrightarrow>
      setDefaultMethod m r = Inr (r\<lparr>defaultMethod := toLowerCase m\<rparr>) \<and>
      parse_key (defaultMethod (r\<lparr>defaultMethod := toLowerCase m\<rparr>)) (CHR ''/'' # rest)
        = (Single (toLowerCase m), CHR ''/'' # rest)) \<and>
   (toLowerCase m \<notin> {''get'', ''post'', ''put'', ''del'', ''all''} \<longrightarrow>
      setDefaultMethod m r = Inl (InvalidMethod m))"
  by (simp add: setDefaultMethod_def single_methods_def parse_key_slash)

theorem setDefaultMethod_del_words_witness:
  "setDefaultMethod ''DEL'' router0 = Inr (router0\<lparr>defaultMethod := ''del''\<rparr>) \<and>
   parse_key (defaultMethod (router0\<lparr>defaultMethod := ''del''\<rparr>)) ''/login''
     = (Single ''del'', ''/login'') \<and>
   setDefaultMethod ''patch'' router0 = Inl (InvalidMethod ''patch'')"
  using setDefaultMethod_del_words [of "''DEL''" router0 "''login''"]
    setDefaultMethod_del_words [of "''patch''" router0 "''login''"]
  by (simp add: toLowerCase_def toLowerChar_def)

text \<open>The claim names delete among the accepted words; the source rejects it.\<close>

theorem setDefaultMethod_delete_rejected:
  "setDefaultMethod ''delete'' router0 = Inl (InvalidMethod ''delete'')"
  by (simp add: setDefaultMethod_def single_methods_def toLowerCase_def toLowerChar_def)

section \<open>Properties of the required handlers\<close>

text \<open>
  C1 at the group \<open>/nodepth\<close> of the repository's test: the group declares the prefix
  \<open>intercept\<close> with depth 0, and the source still puts it in front of the binding one level
  further down, \<open>/nodepth/depth/test\<close>. The zero depth is taken for a missing one and
  replaced by \<open>Infinity\<close>.
\<close>

theorem depth_zero_reaches_grandchild:
  "(case registerRoutes test_env nodepth_tree router0 [] of (st, t, r, h) \<Rightarrow> (st, bound r, h)) =
     (None,
      [(''get'', ''/nodepth/test'', [''intercept'', ''test'']),
       (''get'', ''/nodepth/depth/test'', [''intercept'', ''test''])],
      [\<lparr>sname = ''intercept'', sdepth = Some Infinity\<rparr>])"
  by code_simp

text \<open>
  C2 at two sibling groups: the postfix \<open>x\<close> declared by \<open>/a\<close> is in the chain of the binding
  \<open>/b/t\<close> under its sibling, because both calls assign to the one \<open>required\<close> object.
\<close>

theorem sibling_postfix_leaks:
  "(case registerRoutes test_env sibling_tree router0 [] of (st, t, r, h) \<Rightarrow> (st, bound r)) =
     (None,
      [(''get'', ''/a/t'', [''t'', ''x'']),
       (''get'', ''/b/t'', [''t'', ''y'', ''x''])])"
  by code_simp

text \<open>
  C3 at a group inside a group, both with a string postfix: the inner chain is not
  \<open>t, y, x\<close> but \<open>t, yx\<close>, the two names run together into one that no controller has, and
  the registration stops there with the name already in the table.
\<close>

theorem nested_string_postfix_merges:
  "(case registerRoutes test_env nested_tree router0 [] of
      (st, t, r, h) \<Rightarrow> (st, bound r, controllerToPathHash r ''yx'')) =
     (Some (Thrown (InvalidControllerPath ''yx'')),
      [(''get'', ''/a/t'', [''t'', ''x''])],
      Some ''/a/b/t'')"
  by code_simp

section \<open>Properties of the route key parser\<close>

lemma lower_slash: "toLowerChar c = CHR ''/'' \<Longrightarrow> c = CHR ''/''"
  by (simp add: toLowerChar_def split: if_splits)

lemma slash_not_method: "\<not> method_char CHR ''/''"
  by (simp add: method_char_def toLowerChar_def)

lemma takeWhile_method_seg:
  "list_all method_char seg \<Longrightarrow> takeWhile method_char (seg @ CHR ''/'' # rest) = seg"
  by (induction seg) (auto simp: slash_not_method)

lemma takeWhile_slash_seg:
  "list_all method_char seg \<Longrightarrow> takeWhile (\<lambda>c. c \<noteq> CHR ''/'') (seg @ CHR ''/'' # rest) = seg"
  by (induction seg) (auto simp: slash_not_method)

lemma istarts_seg:
  "CHR ''/'' \<notin> set (toLowerCase seg) \<Longrightarrow> CHR ''/'' \<notin> set w \<Longrightarrow>
   istarts (w @ ''/'') (seg @ CHR ''/'' # rest) = (toLowerCase seg = w)"
proof (induction seg arbitrary: w)
  case Nil
  then show ?case by (cases w) (auto simp: istarts_def toLowerCase_def toLowerChar_def)
next
  case (Cons x seg)
  show ?case
  proof (cases w)
    case Nil
    with Cons.prems show ?thesis by (auto simp: istarts_def toLowerCase_def)
  next
    case (Cons a w')
    with Cons.prems Cons.IH [of w'] show ?thesis
      by (auto simp: istarts_def toLowerCase_def)
  qed
qed

lemma method_lower_no_slash: "list_all method_char seg \<Longrightarrow> CHR ''/'' \<notin> set (toLowerCase seg)"
  by (induction seg) (auto simp: toLowerCase_def method_char_def)

lemma first_pattern:
  assumes "list_all method_char seg"
  shows "find (\<lambda>w. istarts (w @ ''/'') (seg @ CHR ''/'' # rest)) single_methods =
     (if toLowerCase seg \<in> set single_methods then Some (toLowerCase seg) else None)"
proof -
  have "find (\<lambda>w. istarts (w @ ''/'') (seg @ CHR ''/'' # rest)) single_methods =
        find (\<lambda>w. toLowerCase seg = w) single_methods"
  proof (rule find_cong [OF refl])
    fix w assume "w \<in> set single_methods"
    then have "CHR ''/'' \<notin> set w" by (auto simp: single_methods_def)
    then show "istarts (w @ ''/'') (seg @ CHR ''/'' # rest) = (toLowerCase seg = w)"
      using assms by (simp add: istarts_seg method_lower_no_slash)
  qed
  also have "\<dots> = (if toLowerCase seg \<in> set single_methods then Some (toLowerCase seg) else None)"
    by (auto simp: single_methods_def)
  finally show ?thesis .
qed

lemma parse_key_seg:
  "list_all method_char seg \<Longrightarrow> seg \<noteq> [] \<Longrightarrow>
   parse_key d (seg @ CHR ''/'' # rest) =
     (if toLowerCase seg \<in> set single_methods
      then (Single (toLowerCase seg), strip_single (seg @ CHR ''/'' # rest))
      else (Multi (split_comma (toLowerCase seg)), CHR ''/'' # rest))"
  by (simp add: parse_key_def first_pattern takeWhile_method_seg)

lemma strip_single_word:
  "toLowerCase seg \<in> {''get'', ''post'', ''del'', ''all''} \<Longrightarrow>
   strip_single (seg @ CHR ''/'' # rest) = CHR ''/'' # rest"
  by (auto simp: strip_single_def strip_words_def istarts_def toLowerCase_def map_eq_Cons_conv)

lemma strip_single_put:
  "toLowerCase seg = ''put'' \<Longrightarrow> strip_single (seg @ r) = seg @ r"
  by (auto simp: strip_single_def strip_words_def istarts_def toLowerCase_def map_eq_Cons_conv)

lemma valid_method_chars: "toLowerCase m \<in> set valid_methods \<Longrightarrow> list_all method_char m"
  by (auto simp: valid_methods_def toLowerCase_def method_char_def map_eq_Cons_conv)

lemma valid_method_no_comma: "toLowerCase m \<in> set valid_methods \<Longrightarrow> CHR '','' \<notin> set (toLowerCase m)"
  by (auto simp: valid_methods_def)

lemma comma_method: "method_char CHR '',''"
  by (simp add: method_char_def toLowerChar_def)

lemma lower_comma_id: "toLowerChar CHR '','' = CHR '',''"
  by (simp add: toLowerChar_def)

lemma join_comma_chars:
  "\<forall>m\<in>set ms. list_all method_char m \<Longrightarrow> list_all method_char (join_comma ms)"
  by (induction ms rule: join_comma.induct) (auto simp: comma_method)

lemma lower_join: "toLowerCase (join_comma ms) = join_comma (map toLowerCase ms)"
  by (induction ms rule: join_comma.induct) (auto simp: toLowerCase_def lower_comma_id)

lemma split_no_comma: "CHR '','' \<notin> set w \<Longrightarrow> split_comma (w @ CHR '','' # r) = w # split_comma r"
  by (induction w) (auto split: list.splits)

lemma split_word: "CHR '','' \<notin> set w \<Longrightarrow> split_comma w = [w]"
  by (induction w) (auto split: list.splits)

lemma split_join:
  "ws \<noteq> [] \<Longrightarrow> \<forall>w\<in>set ws. CHR '','' \<notin> set w \<Longrightarrow> split_comma (join_comma ws) = ws"
  by (induction ws rule: join_comma.induct) (auto simp: split_word split_no_comma)

lemma valid_nonempty: "toLowerCase m \<in> set valid_methods \<Longrightarrow> m \<noteq> []"
  by (auto simp: valid_methods_def toLowerCase_def)

lemma join_nonempty: "ms \<noteq> [] \<Longrightarrow> \<forall>m\<in>set ms. m \<noteq> [] \<Longrightarrow> join_comma ms \<noteq> []"
  by (induction ms rule: join_comma.induct) auto

lemma parse_valid_list:
  assumes ne: "ms \<noteq> []"
    and valid: "\<forall>m\<in>set ms. toLowerCase m \<in> set valid_methods"
    and notput: "map toLowerCase ms \<noteq> [''put'']"
  shows "methods_of (fst (parse_key d (join_comma ms @ CHR ''/'' # rest))) = map toLowerCase ms \<and>
         snd (parse_key d (join_comma ms @ CHR ''/'' # rest)) = CHR ''/'' # rest"
proof -
  let ?seg = "join_comma ms"
  have chars: "list_all method_char ?seg"
    using valid by (intro join_comma_chars) (auto simp: valid_method_chars)
  have segne: "?seg \<noteq> []"
    using ne valid by (intro join_nonempty) (auto simp: valid_nonempty)
  have low: "toLowerCase ?seg = join_comma (map toLowerCase ms)" by (rule lower_join)
  have split: "split_comma (toLowerCase ?seg) = map toLowerCase ms"
    unfolding low using ne valid by (intro split_join) (auto simp: valid_method_no_comma)
  show ?thesis
  proof (cases "toLowerCase ?seg \<in> set single_methods")
    case False
    then show ?thesis using parse_key_seg [OF chars segne, of d rest] split by simp
  next
    case True
    then have nocomma: "CHR '','' \<notin> set (toLowerCase ?seg)" by (auto simp: single_methods_def)
    obtain m where m: "ms = [m]"
    proof (cases ms)
      case Nil with ne show ?thesis by simp
    next
      case (Cons x xs)
      show ?thesis
      proof (cases xs)
        case Nil with Cons that show ?thesis by simp
      next
        case (Cons y zs)
        with \<open>ms = x # xs\<close> nocomma low show ?thesis by simp
      qed
    qed
    have mv: "toLowerCase m \<in> set valid_methods" using valid m by simp
    have ms': "toLowerCase m \<in> set single_methods" using True m by simp
    have "toLowerCase m \<noteq> ''put''" using notput m by simp
    with mv ms' have w: "toLowerCase m \<in> {''get'', ''post'', ''del'', ''all''}"
      by (auto simp: valid_methods_def single_methods_def)
    show ?thesis
      using parse_key_seg [OF chars segne, of d rest] True m strip_single_word [OF w, of rest]
      by simp
  qed
qed

lemma istarts_split: "istarts w key \<Longrightarrow> \<exists>p r. key = p @ r \<and> toLowerCase p = w"
  by (metis append_take_drop_id istarts_def)

lemma single_chars: "toLowerCase p \<in> set single_methods \<Longrightarrow> list_all method_char p \<and> p \<noteq> []"
  by (auto simp: single_methods_def toLowerCase_def method_char_def map_eq_Cons_conv)

lemma first_pattern_shape:
  assumes "w \<in> set single_methods" "istarts (w @ ''/'') key"
  shows "\<exists>seg rest. key = seg @ CHR ''/'' # rest \<and> seg \<noteq> [] \<and> list_all method_char seg"
proof -
  obtain p r where pr: "key = p @ r" "toLowerCase p = w @ ''/''"
    using istarts_split [OF assms(2)] by blast
  then obtain p1 c where p: "p = p1 @ [c]" "toLowerCase p1 = w" "toLowerChar c = CHR ''/''"
    by (auto simp: toLowerCase_def map_eq_append_conv map_eq_Cons_conv)
  then have "c = CHR ''/''" by (simp add: lower_slash)
  with pr p assms(1) single_chars [of p1] show ?thesis by auto
qed

lemma second_pattern_shape:
  assumes "takeWhile method_char key \<noteq> []"
    "take 1 (drop (length (takeWhile method_char key)) key) = ''/''"
  shows "\<exists>seg rest. key = seg @ CHR ''/'' # rest \<and> seg \<noteq> [] \<and> list_all method_char seg"
proof -
  let ?seg = "takeWhile method_char key"
  have "key = ?seg @ dropWhile method_char key" by simp
  moreover have "drop (length ?seg) key = dropWhile method_char key"
    by (simp add: dropWhile_eq_drop)
  ultimately obtain rest where "dropWhile method_char key = CHR ''/'' # rest"
    using assms(2) by (cases "dropWhile method_char key") auto
  with \<open>key = ?seg @ dropWhile method_char key\<close> assms(1)
  have "key = ?seg @ CHR ''/'' # rest \<and> ?seg \<noteq> [] \<and> list_all method_char ?seg"
    by (simp add: list_all_iff) (metis set_takeWhileD)
  then show ?thesis by blast
qed

lemma shape_has_prefix:
  "seg \<noteq> [] \<Longrightarrow> list_all method_char seg \<Longrightarrow> \<not> no_method_prefix (seg @ CHR ''/'' # rest)"
  by (simp add: no_method_prefix_def takeWhile_slash_seg)

lemma parse_fall_through: "no_method_prefix key \<Longrightarrow> parse_key d key = (Single d, key)"
proof -
  assume h: "no_method_prefix key"
  have a: "find (\<lambda>w. istarts (w @ ''/'') key) single_methods = None"
  proof (rule ccontr)
    assume "find (\<lambda>w. istarts (w @ ''/'') key) single_methods \<noteq> None"
    then obtain w where "w \<in> set single_methods" "istarts (w @ ''/'') key"
      unfolding find_None_iff by blast
    then obtain seg rest where "key = seg @ CHR ''/'' # rest" "seg \<noteq> []" "list_all method_char seg"
      using first_pattern_shape by blast
    with h shape_has_prefix show False by blast
  qed
  have b: "\<not> (takeWhile method_char key \<noteq> [] \<and>
      take 1 (drop (length (takeWhile method_char key)) key) = ''/'')"
  proof
    assume "takeWhile method_char key \<noteq> [] \<and>
      take 1 (drop (length (takeWhile method_char key)) key) = ''/''"
    then obtain seg rest where "key = seg @ CHR ''/'' # rest" "seg \<noteq> []" "list_all method_char seg"
      using second_pattern_shape by blast
    with h shape_has_prefix show False by blast
  qed
  show ?thesis
    unfolding parse_key_def a using b by (simp add: Let_def)
qed

lemma register_names_ok:
  "list_all (resolves E) ns \<Longrightarrow>
   fst (register_names E url ns s) = None \<and>
   bound (snd (register_names E url ns s)) = bound s"
  by (induction ns arbitrary: s) (auto simp: Let_def)

text \<open>
  C5, as the source has it. A key that begins with a comma-separated list of names, each
  one of get, post, put, delete, all up to case, followed by a slash, gives those names
  lower-cased and in order as its methods and the rest, from the slash on, as its
  fragment; the single name put is left out of this statement. A key with no slash, with
  nothing before its first slash, or with a character outside the class
  \<open>[adeglopstu,]\<close> before it, gives the default method and the key unchanged.
\<close>

theorem parse_key_method_lists:
  "(ms \<noteq> [] \<and> (\<forall>m\<in>set ms. toLowerCase m \<in> set valid_methods) \<and>
      map toLowerCase ms \<noteq> [''put''] \<longrightarrow>
      methods_of (fst (parse_key d (join_comma ms @ CHR ''/'' # rest))) = map toLowerCase ms \<and>
      snd (parse_key d (join_comma ms @ CHR ''/'' # rest)) = CHR ''/'' # rest) \<and>
   (no_method_prefix key \<longrightarrow> parse_key d key = (Single d, key))"
  using parse_valid_list [of ms d rest] parse_fall_through [of key d] by blast

theorem parse_key_method_lists_witness:
  "methods_of (fst (parse_key ''get'' ''GET,Post/login'')) = [''get'', ''post''] \<and>
   snd (parse_key ''get'' ''GET,Post/login'') = ''/login'' \<and>
   parse_key ''get'' '':username/edit'' = (Single ''get'', '':username/edit'')"
  using parse_key_method_lists [of "[''GET'', ''Post'']" "''get''" "''login''" "'':username/edit''"]
  by (simp add: valid_methods_def no_method_prefix_def toLowerCase_def toLowerChar_def
      method_char_def)

text \<open>
  The claim fails as stated: del is not among its method names, yet the key \<open>del/x\<close> is
  parsed as the method del with the fragment \<open>/x\<close>.
\<close>

theorem parse_key_del_counterexample:
  "parse_key ''get'' ''del/x'' = (Single ''del'', ''/x'')"
  by (simp add: parse_key_def single_methods_def istarts_def toLowerCase_def toLowerChar_def
      strip_single_def strip_words_def)

text \<open>
  C6, as the source has it. A key with no slash, with nothing before its first slash, or
  with a character outside the class \<open>[adeglopstu,]\<close> before it, is compiled without an
  error from the parser: when its handlers resolve and the server has the default
  method, the binding is made once, under the default method, with the whole key as the
  path fragment.
\<close>

theorem malformed_prefix_default_binding:
  "no_method_prefix key \<and> list_all (resolves E) (expressCall s own) \<and>
     has_method E (defaultMethod s) \<longrightarrow>
   fst (build_leaf E key own cp s) = None \<and>
   bound (snd (build_leaf E key own cp s)) =
     bound s @ [(defaultMethod s, trim_slash (if cp \<noteq> [] then path_join E cp key else key),
                 expressCall s own)]"
proof (intro impI)
  assume h: "no_method_prefix key \<and> list_all (resolves E) (expressCall s own) \<and>
     has_method E (defaultMethod s)"
  define url where "url = trim_slash (if cp \<noteq> [] then path_join E cp key else key)"
  obtain st s1 where r: "register_names E url (expressCall s own) s = (st, s1)"
    by (cases "register_names E url (expressCall s own) s")
  with h register_names_ok [of E "expressCall s own" url s]
  have st: "st = None" and b: "bound s1 = bound s" by simp_all
  have d: "defaultMethod s1 = defaultMethod s"
  proof -
    have "\<And>ns t. defaultMethod (snd (register_names E url ns t)) = defaultMethod t"
      subgoal for ns t by (induction ns arbitrary: t) (auto simp: Let_def)
      done
    from this [of "expressCall s own" s] r show ?thesis by simp
  qed
  have "fst (build_leaf E key own cp s) = None \<and>
     bound (snd (build_leaf E key own cp s)) = bound s @ [(defaultMethod s, url, expressCall s own)]"
    using h r st b d by (simp add: build_leaf_def parse_fall_through url_def)
  then show "fst (build_leaf E key own cp s) = None \<and>
     bound (snd (build_leaf E key own cp s)) =
       bound s @ [(defaultMethod s, trim_slash (if cp \<noteq> [] then path_join E cp key else key),
                   expressCall s own)]"
    by (simp add: url_def)
qed

theorem malformed_prefix_default_binding_witness:
  "fst (build_leaf test_env ''foo/x'' [Prim ''test''] []
         \<lparr>controllerToPathHash = Map.empty, defaultMethod = ''get'', bound = [], heap = [],
          required_prefix = [], required_postfix = PArr []\<rparr>) = None \<and>
   bound (snd (build_leaf test_env ''foo/x'' [Prim ''test''] []
         \<lparr>controllerToPathHash = Map.empty, defaultMethod = ''get'', bound = [], heap = [],
          required_prefix = [], required_postfix = PArr []\<rparr>)) =
     [(''get'', ''foo/x'', [''test''])]"
  using malformed_prefix_default_binding [of "''foo/x''" test_env
      "\<lparr>controllerToPathHash = Map.empty, defaultMethod = ''get'', bound = [], heap = [],
        required_prefix = [], required_postfix = PArr []\<rparr>" "[Prim ''test'']" "[]"]
  by (simp add: no_method_prefix_def method_char_def toLowerChar_def test_env_def
      expressCall_def trim_slash_def)

text \<open>
  The claim fails as stated: \<open>goat\<close> is no list of method names, yet the key \<open>goat/x\<close> is
  parsed as the method list \<open>goat\<close> with the fragment \<open>/x\<close>, not as the default method with
  the whole key.
\<close>

theorem parse_key_goat_counterexample:
  "parse_key ''get'' ''goat/x'' = (Multi [''goat''], ''/x'')"
  by (simp add: parse_key_def single_methods_def istarts_def toLowerCase_def toLowerChar_def
      method_char_def)

section \<open>Properties of getControllerUrl\<close>







lemma strip_no_question: "CHR ''?'' \<notin> set p \<Longrightarrow> strip_optional p = p"
  by (induction p) auto

lemma strip_before_colon:
  "CHR '':'' \<notin> set pre \<Longrightarrow> strip_optional (pre @ s) = pre @ strip_optional s"
  by (induction pre) auto










text \<open>
  C8 at the name \<open>constructor\<close>: no route was registered under it, yet the read of the
  table finds the function that \<open>Object.prototype\<close> has there, the guard lets it pass, and
  generation dies on the missing method \<open>replace\<close> instead of reporting an invalid
  controller.
\<close>

theorem inherited_name_throws:
  "controllerToPathHash (registered [(''/test/:testVar'', Str ''test'')]) ''constructor'' = None \<and>
   map_option fst (getControllerUrl (path_join test_env) ''constructor'' []
      (registered [(''/test/:testVar'', Str ''test'')])) = Some (Inl (NotAFunction ''replace''))"
  by code_simp

section \<open>Properties of the traversal\<close>



































lemma written_children_required:
  "map_of (written_children kvs) ''required'' = map_of kvs ''required''"
  by (induction kvs rule: written_children.induct) (auto split: node.splits)



















end
